theory Spec2Isabelle
  imports Complex_Main
begin

section \<open>Python values\<close>

text \<open>
  The client in \<^verbatim>\<open>src/quality/quality_api.py\<close> is dynamically typed: arguments,
  query parameters and decoded JSON bodies are all Python objects. They are modelled by one
  datatype. A \<^verbatim>\<open>dict\<close> is an association list in insertion order. Python floats are
  idealised as real numbers (no rounding, no overflow).
\<close>

datatype pyval =
    PNone
  | PBool bool
  | PInt int
  | PFloat real
  | PStr string
  | PList "pyval list"
  | PDict "(string \<times> pyval) list"

section \<open>HTTP layer and errors\<close>

text \<open>
  What \<^verbatim>\<open>client.request(method=, url=, json=, params=, headers=)\<close> is given, together
  with the \<^verbatim>\<open>timeout\<close> of the \<^verbatim>\<open>httpx.AsyncClient\<close> the request is sent through.
\<close>

record request =
  http_method :: pyval
  url :: string
  json :: pyval
  params :: pyval
  headers :: "(string \<times> string) list"
  timeout :: pyval

text \<open>
  A response: its status code and what \<^verbatim>\<open>response.json()\<close> yields for its body
  (\<open>None\<close> when the body is not valid JSON).
\<close>

record response =
  status_code :: int
  json_body :: "pyval option"

text \<open>
  The exceptions the module can raise. \<open>RequestError\<close> stands for the transport-level
  subclasses of \<^verbatim>\<open>httpx.HTTPError\<close> (connection failures, timeouts), tagged with the
  class name; \<open>HTTPStatusError\<close> carries the response, as httpx does.
\<close>

datatype error =
    TypeError
  | AttributeError
  | ZeroDivisionError
  | JSONDecodeError
  | HTTPStatusError response
  | RequestError string

text \<open>
  What the module takes from its surroundings: the network (the outcome of sending a
  request, which may depend on the requests sent before it), the process clock read by
  \<^verbatim>\<open>datetime.now().isoformat()\<close>, and the interpreter's formatting of floats, lists and
  dicts inside an f-string.
\<close>

record runtime =
  send :: "request list \<Rightarrow> request \<Rightarrow> string + response"
  now_isoformat :: string
  format_other :: "pyval \<Rightarrow> string"

text \<open>
  An operation takes the list of the requests sent so far and returns its result, or the
  exception it raised, with the list extended by the requests it sent.
\<close>

type_synonym 'a io = "request list \<Rightarrow> (error + 'a) \<times> request list"

definition io_return :: "'a \<Rightarrow> 'a io" where
  "io_return x = (\<lambda>sent. (Inr x, sent))"

definition io_raise :: "error \<Rightarrow> 'a io" where
  "io_raise e = (\<lambda>sent. (Inl e, sent))"

definition io_lift :: "error + 'a \<Rightarrow> 'a io" where
  "io_lift r = (\<lambda>sent. (r, sent))"

definition io_bind :: "'a io \<Rightarrow> ('a \<Rightarrow> 'b io) \<Rightarrow> 'b io" where
  "io_bind m f = (\<lambda>sent. case m sent of
                      (Inl e, sent') \<Rightarrow> (Inl e, sent')
                    | (Inr x, sent') \<Rightarrow> f x sent')"

definition err_bind :: "error + 'a \<Rightarrow> ('a \<Rightarrow> error + 'b) \<Rightarrow> error + 'b" where
  "err_bind r f = (case r of Inl e \<Rightarrow> Inl e | Inr x \<Rightarrow> f x)"

section \<open>Calling a Python function\<close>

text \<open>
  A call \<^verbatim>\<open>f(a1, ..., an, k1=v1, ...)\<close> binds its arguments to the parameters of
  \<^verbatim>\<open>f\<close> before the body runs, and raises \<^verbatim>\<open>TypeError\<close> when they do not fit: too many
  positional arguments, a keyword that names no parameter or one already bound
  positionally, a repeated keyword, or a parameter without default left unbound. All
  parameters of this module are positional-or-keyword. A parameter is its name and its
  default, if it has one; the result lists the parameters' values in declaration order.
\<close>

type_synonym parameters = "(string \<times> pyval option) list"

fun bind_rest :: "parameters \<Rightarrow> (string \<times> pyval) list \<Rightarrow> error + pyval list" where
  "bind_rest [] kw = Inr []"
| "bind_rest ((n, d) # ps) kw =
     (case (map_of kw n, d) of
        (Some v, _) \<Rightarrow> err_bind (bind_rest ps kw) (\<lambda>vs. Inr (v # vs))
      | (None, Some v) \<Rightarrow> err_bind (bind_rest ps kw) (\<lambda>vs. Inr (v # vs))
      | (None, None) \<Rightarrow> Inl TypeError)"

definition bind_args ::
  "parameters \<Rightarrow> pyval list \<Rightarrow> (string \<times> pyval) list \<Rightarrow> error + pyval list" where
  "bind_args ps pos kw =
     (if length ps < length pos then Inl TypeError
      else if \<not> distinct (map fst kw) then Inl TypeError
      else if \<not> list_all (\<lambda>k. k \<in> set (map fst (drop (length pos) ps))) (map fst kw)
        then Inl TypeError
      else err_bind (bind_rest (drop (length pos) ps) kw) (\<lambda>vs. Inr (pos @ vs)))"

section \<open>Python operators used by the module\<close>

fun str_nat :: "nat \<Rightarrow> string" where
  "str_nat n = (if n < 10 then [''0123456789'' ! n]
                else str_nat (n div 10) @ [''0123456789'' ! (n mod 10)])"

declare str_nat.simps [simp del]

definition str_int :: "int \<Rightarrow> string" where
  "str_int i = (if i < 0 then CHR ''-'' # str_nat (nat (- i)) else str_nat (nat i))"

text \<open>The text an f-string puts in place of \<^verbatim>\<open>{v}\<close>.\<close>

fun py_format :: "runtime \<Rightarrow> pyval \<Rightarrow> string" where
  "py_format rt PNone = ''None''"
| "py_format rt (PBool b) = (if b then ''True'' else ''False'')"
| "py_format rt (PInt i) = str_int i"
| "py_format rt (PStr s) = s"
| "py_format rt v = format_other rt v"

text \<open>Truthiness, as \<^verbatim>\<open>if x\<close> and \<^verbatim>\<open>x or y\<close> test it.\<close>

fun py_truthy :: "pyval \<Rightarrow> bool" where
  "py_truthy PNone = False"
| "py_truthy (PBool b) = b"
| "py_truthy (PInt i) = (i \<noteq> 0)"
| "py_truthy (PFloat x) = (x \<noteq> 0)"
| "py_truthy (PStr s) = (s \<noteq> [])"
| "py_truthy (PList xs) = (xs \<noteq> [])"
| "py_truthy (PDict kvs) = (kvs \<noteq> [])"

text \<open>The numeric value of a number (\<^verbatim>\<open>bool\<close> is a subclass of \<^verbatim>\<open>int\<close>).\<close>

fun py_number :: "pyval \<Rightarrow> real option" where
  "py_number (PBool b) = Some (if b then 1 else 0)"
| "py_number (PInt i) = Some (real_of_int i)"
| "py_number (PFloat x) = Some x"
| "py_number v = None"

fun py_integer :: "pyval \<Rightarrow> int option" where
  "py_integer (PBool b) = Some (if b then 1 else 0)"
| "py_integer (PInt i) = Some i"
| "py_integer v = None"

text \<open>\<^verbatim>\<open>d.get(key, default)\<close>: only a dict has the method.\<close>

definition py_get :: "pyval \<Rightarrow> string \<Rightarrow> pyval \<Rightarrow> error + pyval" where
  "py_get d key dflt =
     (case d of
        PDict kvs \<Rightarrow> (case map_of kvs key of Some v \<Rightarrow> Inr v | None \<Rightarrow> Inr dflt)
      | _ \<Rightarrow> Inl AttributeError)"

text \<open>\<^verbatim>\<open>v == i\<close> for an int literal \<^verbatim>\<open>i\<close>: numbers compare by value, nothing else is equal.\<close>

definition py_eq_int :: "pyval \<Rightarrow> int \<Rightarrow> bool" where
  "py_eq_int v i = (case py_number v of Some x \<Rightarrow> x = real_of_int i | None \<Rightarrow> False)"

text \<open>\<^verbatim>\<open>v > c\<close> for a numeric literal \<^verbatim>\<open>c\<close>: a non-number on the left raises.\<close>

definition py_gt :: "pyval \<Rightarrow> real \<Rightarrow> error + bool" where
  "py_gt v c = (case py_number v of Some x \<Rightarrow> Inr (c < x) | None \<Rightarrow> Inl TypeError)"

text \<open>\<^verbatim>\<open>a + b\<close> on numbers, as \<^verbatim>\<open>sum\<close> uses it from the start value \<^verbatim>\<open>0\<close>.\<close>

definition py_add :: "pyval \<Rightarrow> pyval \<Rightarrow> error + pyval" where
  "py_add a b =
     (case (py_integer a, py_integer b) of
        (Some i, Some j) \<Rightarrow> Inr (PInt (i + j))
      | _ \<Rightarrow> (case (py_number a, py_number b) of
                (Some x, Some y) \<Rightarrow> Inr (PFloat (x + y))
              | _ \<Rightarrow> Inl TypeError))"

text \<open>\<^verbatim>\<open>a / b\<close>: true division of numbers, always a float.\<close>

definition py_truediv :: "pyval \<Rightarrow> pyval \<Rightarrow> error + pyval" where
  "py_truediv a b =
     (case (py_number a, py_number b) of
        (Some x, Some y) \<Rightarrow> if y = 0 then Inl ZeroDivisionError else Inr (PFloat (x / y))
      | _ \<Rightarrow> Inl TypeError)"

text \<open>\<^verbatim>\<open>a * 100\<close> with \<^verbatim>\<open>a\<close> the float of a true division.\<close>

definition py_mul :: "pyval \<Rightarrow> pyval \<Rightarrow> error + pyval" where
  "py_mul a b =
     (case (py_integer a, py_integer b) of
        (Some i, Some j) \<Rightarrow> Inr (PInt (i * j))
      | _ \<Rightarrow> (case (py_number a, py_number b) of
                (Some x, Some y) \<Rightarrow> Inr (PFloat (x * y))
              | _ \<Rightarrow> Inl TypeError))"

text \<open>\<^verbatim>\<open>len(v)\<close>.\<close>

fun py_len :: "pyval \<Rightarrow> error + pyval" where
  "py_len (PList xs) = Inr (PInt (int (length xs)))"
| "py_len (PDict kvs) = Inr (PInt (int (length kvs)))"
| "py_len (PStr s) = Inr (PInt (int (length s)))"
| "py_len v = Inl TypeError"

text \<open>The items a \<^verbatim>\<open>for\<close> takes from a value: a dict yields its keys, a string its characters.\<close>

fun py_iter :: "pyval \<Rightarrow> error + pyval list" where
  "py_iter (PList xs) = Inr xs"
| "py_iter (PDict kvs) = Inr (map (\<lambda>kv. PStr (fst kv)) kvs)"
| "py_iter (PStr s) = Inr (map (\<lambda>c. PStr [c]) s)"
| "py_iter v = Inl TypeError"

section \<open>The request dispatcher\<close>

definition DEFAULT_BASE_URL :: string where
  "DEFAULT_BASE_URL = ''http://localhost:8080/api/v1''"

text \<open>
  Modelled from the spec: \<^verbatim>\<open>httpx.Response.raise_for_status\<close> is library code that is not
  part of the sources. The specification of the dispatcher says that it fails "on any
  non-2xx status" with "an HTTP-status error carrying the status code and response body".
\<close>

definition raise_for_status :: "response \<Rightarrow> error + response" where
  "raise_for_status r =
     (if 200 \<le> status_code r \<and> status_code r \<le> 299 then Inr r
      else Inl (HTTPStatusError r))"

text \<open>\<^verbatim>\<open>response.json()\<close>.\<close>

definition response_json :: "response \<Rightarrow> error + pyval" where
  "response_json r = (case json_body r of None \<Rightarrow> Inl JSONDecodeError | Some v \<Rightarrow> Inr v)"

text \<open>
  The body of \<^verbatim>\<open>_make_request\<close> (lines 163 to 174), on the bound parameters: one request
  is sent, whatever its outcome.
\<close>

definition make_request_body ::
  "runtime \<Rightarrow> pyval \<Rightarrow> pyval \<Rightarrow> pyval \<Rightarrow> pyval \<Rightarrow> pyval \<Rightarrow> pyval \<Rightarrow> response io" where
  "make_request_body rt method_arg endpoint base_url json_data params_arg timeout_arg =
     (\<lambda>sent.
        let req = \<lparr> http_method = method_arg,
                    url = py_format rt base_url @ py_format rt endpoint,
                    json = json_data,
                    params = params_arg,
                    headers = [(''Content-Type'', ''application/json''),
                               (''Accept'', ''application/json'')],
                    timeout = timeout_arg \<rparr>
        in (case send rt sent req of
              Inl kind \<Rightarrow> Inl (RequestError kind)
            | Inr resp \<Rightarrow> raise_for_status resp,
            sent @ [req]))"

text \<open>
  \<^verbatim>\<open>_make_request(method, endpoint, base_url=DEFAULT_BASE_URL, json_data=None,
  params=None, timeout=30)\<close>, called with positional arguments \<open>pos\<close> and keyword
  arguments \<open>kw\<close>. (An Isabelle name cannot start with an underscore.)
\<close>

definition make_request_parameters :: parameters where
  "make_request_parameters =
     [(''method'', None), (''endpoint'', None),
      (''base_url'', Some (PStr DEFAULT_BASE_URL)),
      (''json_data'', Some PNone), (''params'', Some PNone),
      (''timeout'', Some (PInt 30))]"

definition make_request ::
  "runtime \<Rightarrow> pyval list \<Rightarrow> (string \<times> pyval) list \<Rightarrow> response io" where
  "make_request rt pos kw =
     (case bind_args make_request_parameters pos kw of
        Inl e \<Rightarrow> io_raise e
      | Inr [m, e, b, j, p, t] \<Rightarrow> make_request_body rt m e b j p t
      | Inr _ \<Rightarrow> io_raise TypeError)"

section \<open>Query functions\<close>

text \<open>
  Each public function is modelled as called with positional arguments \<open>pos\<close> and keyword
  arguments \<open>kw\<close>; its body runs on the bound parameters. In every function but
  \<^verbatim>\<open>get_all_results\<close> the name \<^verbatim>\<open>base_url\<close> is a local variable assigned
  \<^verbatim>\<open>DEFAULT_BASE_URL\<close> in the first statement of the body, not a parameter.
\<close>

definition get_result_by_id_body :: "runtime \<Rightarrow> pyval \<Rightarrow> pyval io" where
  "get_result_by_id_body rt result_id =
     (let base_url = PStr DEFAULT_BASE_URL in
      io_bind (make_request rt
                 [PStr ''GET'', PStr (''/quality/results/'' @ py_format rt result_id)]
                 [(''base_url'', base_url)])
        (\<lambda>resp. io_lift (response_json resp)))"

definition get_result_by_id ::
  "runtime \<Rightarrow> pyval list \<Rightarrow> (string \<times> pyval) list \<Rightarrow> pyval io" where
  "get_result_by_id rt pos kw =
     (case bind_args [(''result_id'', None)] pos kw of
        Inl e \<Rightarrow> io_raise e
      | Inr [result_id] \<Rightarrow> get_result_by_id_body rt result_id
      | Inr _ \<Rightarrow> io_raise TypeError)"

text \<open>
  Lines 486 to 490, 596 to 600 and 974 to 978: the query-parameter dict of the three
  paginated functions, and \<^verbatim>\<open>params if params else None\<close>.
\<close>

definition page_size_params :: "pyval \<Rightarrow> pyval \<Rightarrow> pyval" where
  "page_size_params page size_arg =
     (let params0 = [];
          params1 = (if page \<noteq> PNone then params0 @ [(''page'', page)] else params0);
          params2 = (if size_arg \<noteq> PNone then params1 @ [(''size'', size_arg)] else params1)
      in if py_truthy (PDict params2) then PDict params2 else PNone)"

definition page_parameters :: parameters where
  "page_parameters = [(''page'', Some PNone), (''size'', Some PNone)]"

definition get_all_results_body :: "runtime \<Rightarrow> pyval \<Rightarrow> pyval \<Rightarrow> pyval io" where
  "get_all_results_body rt page size_arg =
     io_bind (make_request rt [PStr ''GET'', PStr ''/quality/results'']
                [(''base_url'', PStr DEFAULT_BASE_URL),
                 (''params'', page_size_params page size_arg)])
       (\<lambda>resp. io_lift (response_json resp))"

definition get_all_results ::
  "runtime \<Rightarrow> pyval list \<Rightarrow> (string \<times> pyval) list \<Rightarrow> pyval io" where
  "get_all_results rt pos kw =
     (case bind_args page_parameters pos kw of
        Inl e \<Rightarrow> io_raise e
      | Inr [page, size_arg] \<Rightarrow> get_all_results_body rt page size_arg
      | Inr _ \<Rightarrow> io_raise TypeError)"

definition get_passed_results_body :: "runtime \<Rightarrow> pyval \<Rightarrow> pyval \<Rightarrow> pyval io" where
  "get_passed_results_body rt page size_arg =
     (let base_url = PStr DEFAULT_BASE_URL in
      io_bind (make_request rt [PStr ''GET'', PStr ''/quality/results/passed'']
                 [(''base_url'', base_url),
                  (''params'', page_size_params page size_arg)])
        (\<lambda>resp. io_lift (response_json resp)))"

definition get_passed_results ::
  "runtime \<Rightarrow> pyval list \<Rightarrow> (string \<times> pyval) list \<Rightarrow> pyval io" where
  "get_passed_results rt pos kw =
     (case bind_args page_parameters pos kw of
        Inl e \<Rightarrow> io_raise e
      | Inr [page, size_arg] \<Rightarrow> get_passed_results_body rt page size_arg
      | Inr _ \<Rightarrow> io_raise TypeError)"

definition get_result_by_lot_id_body :: "runtime \<Rightarrow> pyval \<Rightarrow> pyval io" where
  "get_result_by_lot_id_body rt lot_id =
     (let base_url = PStr DEFAULT_BASE_URL in
      io_bind (make_request rt
                 [PStr ''GET'', PStr (''/quality/results/lot/'' @ py_format rt lot_id)]
                 [(''base_url'', base_url)])
        (\<lambda>resp. io_lift (response_json resp)))"

definition get_result_by_lot_id ::
  "runtime \<Rightarrow> pyval list \<Rightarrow> (string \<times> pyval) list \<Rightarrow> pyval io" where
  "get_result_by_lot_id rt pos kw =
     (case bind_args [(''lot_id'', None)] pos kw of
        Inl e \<Rightarrow> io_raise e
      | Inr [lot_id] \<Rightarrow> get_result_by_lot_id_body rt lot_id
      | Inr _ \<Rightarrow> io_raise TypeError)"

definition get_high_risk_results_body :: "runtime \<Rightarrow> pyval \<Rightarrow> pyval io" where
  "get_high_risk_results_body rt threshold =
     (let base_url = PStr DEFAULT_BASE_URL;
          params_dict = PDict [(''threshold'', threshold)]
      in io_bind (make_request rt [PStr ''GET'', PStr ''/quality/results/high-risk'']
                    [(''base_url'', base_url), (''params'', params_dict)])
           (\<lambda>resp. io_lift (response_json resp)))"

definition get_high_risk_results ::
  "runtime \<Rightarrow> pyval list \<Rightarrow> (string \<times> pyval) list \<Rightarrow> pyval io" where
  "get_high_risk_results rt pos kw =
     (case bind_args [(''threshold'', Some (PFloat (7 / 10)))] pos kw of
        Inl e \<Rightarrow> io_raise e
      | Inr [threshold] \<Rightarrow> get_high_risk_results_body rt threshold
      | Inr _ \<Rightarrow> io_raise TypeError)"

definition get_failed_results_body :: "runtime \<Rightarrow> pyval \<Rightarrow> pyval \<Rightarrow> pyval io" where
  "get_failed_results_body rt page size_arg =
     (let base_url = PStr DEFAULT_BASE_URL in
      io_bind (make_request rt [PStr ''GET'', PStr ''/quality/results/failed'']
                 [(''base_url'', base_url),
                  (''params'', page_size_params page size_arg)])
        (\<lambda>resp. io_lift (response_json resp)))"

definition get_failed_results ::
  "runtime \<Rightarrow> pyval list \<Rightarrow> (string \<times> pyval) list \<Rightarrow> pyval io" where
  "get_failed_results rt pos kw =
     (case bind_args page_parameters pos kw of
        Inl e \<Rightarrow> io_raise e
      | Inr [page, size_arg] \<Rightarrow> get_failed_results_body rt page size_arg
      | Inr _ \<Rightarrow> io_raise TypeError)"

definition get_results_by_defect_type_body :: "runtime \<Rightarrow> pyval \<Rightarrow> pyval io" where
  "get_results_by_defect_type_body rt defect_type =
     (let base_url = PStr DEFAULT_BASE_URL in
      io_bind (make_request rt
                 [PStr ''GET'', PStr (''/quality/results/defect/'' @ py_format rt defect_type)]
                 [(''base_url'', base_url)])
        (\<lambda>resp. io_lift (response_json resp)))"

definition get_results_by_defect_type ::
  "runtime \<Rightarrow> pyval list \<Rightarrow> (string \<times> pyval) list \<Rightarrow> pyval io" where
  "get_results_by_defect_type rt pos kw =
     (case bind_args [(''defect_type'', None)] pos kw of
        Inl e \<Rightarrow> io_raise e
      | Inr [defect_type] \<Rightarrow> get_results_by_defect_type_body rt defect_type
      | Inr _ \<Rightarrow> io_raise TypeError)"

section \<open>Utility functions\<close>

text \<open>Lines 1198 to 1204: the dict \<^verbatim>\<open>get_quality_summary\<close> builds from a fetched result.\<close>

definition quality_summary_of :: "runtime \<Rightarrow> pyval \<Rightarrow> error + pyval" where
  "quality_summary_of rt result =
     err_bind (py_get result ''classification'' PNone) (\<lambda>classification.
     err_bind (py_get result ''predictedRisk'' (PInt 0)) (\<lambda>risk.
     err_bind (py_gt risk (7 / 10)) (\<lambda>is_high_risk.
     err_bind (py_get result ''defectType'' PNone) (\<lambda>defect_type.
       Inr (PDict [(''result'', result),
                   (''is_passed'', PBool (py_eq_int classification (- 1))),
                   (''is_high_risk'', PBool is_high_risk),
                   (''has_defects'', PBool (defect_type \<noteq> PNone)),
                   (''summary_generated_at'', PStr (now_isoformat rt))])))))"

text \<open>
  Line 1196 calls \<^verbatim>\<open>get_result_by_id(result_id, base_url)\<close>, with two positional
  arguments.
\<close>

definition get_quality_summary_body :: "runtime \<Rightarrow> pyval \<Rightarrow> pyval io" where
  "get_quality_summary_body rt result_id =
     (let base_url = PStr DEFAULT_BASE_URL in
      io_bind (get_result_by_id rt [result_id, base_url] [])
        (\<lambda>result. io_lift (quality_summary_of rt result)))"

definition get_quality_summary ::
  "runtime \<Rightarrow> pyval list \<Rightarrow> (string \<times> pyval) list \<Rightarrow> pyval io" where
  "get_quality_summary rt pos kw =
     (case bind_args [(''result_id'', None)] pos kw of
        Inl e \<Rightarrow> io_raise e
      | Inr [result_id] \<Rightarrow> get_quality_summary_body rt result_id
      | Inr _ \<Rightarrow> io_raise TypeError)"

text \<open>
  Line 1291: \<^verbatim>\<open>sum(r.get("qualityScore", 0) or 0 for r in content)\<close>, from the
  accumulator \<open>acc\<close>.
\<close>

fun sum_quality_scores :: "pyval list \<Rightarrow> pyval \<Rightarrow> error + pyval" where
  "sum_quality_scores [] acc = Inr acc"
| "sum_quality_scores (r # rs) acc =
     err_bind (py_get r ''qualityScore'' (PInt 0)) (\<lambda>q.
     err_bind (py_add acc (if py_truthy q then q else PInt 0)) (\<lambda>acc'.
       sum_quality_scores rs acc'))"

definition average_quality_score :: "pyval \<Rightarrow> error + pyval" where
  "average_quality_score content =
     (if py_truthy content
      then err_bind (py_iter content) (\<lambda>items.
           err_bind (sum_quality_scores items (PInt 0)) (\<lambda>total_score.
           err_bind (py_len content) (\<lambda>n. py_truediv total_score n)))
      else Inr (PInt 0))"

text \<open>Line 1297: \<^verbatim>\<open>(passed_count / total * 100) if total > 0 else 0\<close>.\<close>

definition pass_rate :: "pyval \<Rightarrow> pyval \<Rightarrow> error + pyval" where
  "pass_rate passed_count total_count =
     err_bind (py_gt total_count 0) (\<lambda>positive.
       if positive
       then err_bind (py_truediv passed_count total_count) (\<lambda>q. py_mul q (PInt 100))
       else Inr (PInt 0))"

text \<open>Lines 1285 to 1301: the statistics dict built from the four fetched values.\<close>

definition quality_statistics_of ::
  "runtime \<Rightarrow> pyval \<Rightarrow> pyval \<Rightarrow> pyval \<Rightarrow> pyval \<Rightarrow> error + pyval" where
  "quality_statistics_of rt all_results_page passed_results_page failed_results_page
       high_risk_results =
     err_bind (py_get all_results_page ''totalElements'' (PInt 0)) (\<lambda>total_count.
     err_bind (py_get passed_results_page ''totalElements'' (PInt 0)) (\<lambda>passed_count.
     err_bind (py_get failed_results_page ''totalElements'' (PInt 0)) (\<lambda>failed_count.
     err_bind (py_get all_results_page ''content'' (PList [])) (\<lambda>content.
     err_bind (average_quality_score content) (\<lambda>avg_quality_score.
     err_bind (py_len high_risk_results) (\<lambda>high_risk_count.
     err_bind (pass_rate passed_count total_count) (\<lambda>rate.
       Inr (PDict [(''total_results'', total_count),
                   (''passed_count'', passed_count),
                   (''failed_count'', failed_count),
                   (''high_risk_count'', high_risk_count),
                   (''pass_rate'', rate),
                   (''average_quality_score'', avg_quality_score),
                   (''statistics_generated_at'', PStr (now_isoformat rt))]))))))))"

text \<open>
  Lines 1280 to 1283: \<^verbatim>\<open>get_all_results()\<close>, then the three calls that pass
  \<^verbatim>\<open>base_url=base_url\<close> as a keyword argument.
\<close>

definition get_quality_statistics_body :: "runtime \<Rightarrow> pyval io" where
  "get_quality_statistics_body rt =
     (let base_url = PStr DEFAULT_BASE_URL in
      io_bind (get_all_results rt [] []) (\<lambda>all_results_page.
      io_bind (get_passed_results rt [] [(''base_url'', base_url)]) (\<lambda>passed_results_page.
      io_bind (get_failed_results rt [] [(''base_url'', base_url)]) (\<lambda>failed_results_page.
      io_bind (get_high_risk_results rt [] [(''base_url'', base_url)]) (\<lambda>high_risk_results.
        io_lift (quality_statistics_of rt all_results_page passed_results_page
                   failed_results_page high_risk_results))))))"

definition get_quality_statistics ::
  "runtime \<Rightarrow> pyval list \<Rightarrow> (string \<times> pyval) list \<Rightarrow> pyval io" where
  "get_quality_statistics rt pos kw =
     (case bind_args [] pos kw of
        Inl e \<Rightarrow> io_raise e
      | Inr [] \<Rightarrow> get_quality_statistics_body rt
      | Inr _ \<Rightarrow> io_raise TypeError)"

text \<open>
  Lines 1324 to 1331: the \<^verbatim>\<open>try\<close> around \<^verbatim>\<open>get_result_by_id(result_id, base_url)\<close>. The
  first handler takes an \<^verbatim>\<open>httpx.HTTPStatusError\<close> and returns \<^verbatim>\<open>None\<close> for status 404,
  re-raising otherwise; the second takes every other \<^verbatim>\<open>httpx.HTTPError\<close>. An exception of
  any other class propagates.
\<close>

definition safe_get_result_body :: "runtime \<Rightarrow> pyval \<Rightarrow> pyval io" where
  "safe_get_result_body rt result_id =
     (let base_url = PStr DEFAULT_BASE_URL in
      (\<lambda>sent. case get_result_by_id rt [result_id, base_url] [] sent of
                (Inr v, sent') \<Rightarrow> (Inr v, sent')
              | (Inl (HTTPStatusError r), sent') \<Rightarrow>
                  if status_code r = 404 then (Inr PNone, sent')
                  else (Inl (HTTPStatusError r), sent')
              | (Inl (RequestError kind), sent') \<Rightarrow> (Inr PNone, sent')
              | (Inl e, sent') \<Rightarrow> (Inl e, sent')))"

definition safe_get_result ::
  "runtime \<Rightarrow> pyval list \<Rightarrow> (string \<times> pyval) list \<Rightarrow> pyval io" where
  "safe_get_result rt pos kw =
     (case bind_args [(''result_id'', None)] pos kw of
        Inl e \<Rightarrow> io_raise e
      | Inr [result_id] \<Rightarrow> safe_get_result_body rt result_id
      | Inr _ \<Rightarrow> io_raise TypeError)"

text \<open>
  The functions the module exports (\<^verbatim>\<open>__all__\<close>, lines 1342 to 1355): the seven query
  functions and the three utility functions.
\<close>

definition public_api ::
  "(runtime \<Rightarrow> pyval list \<Rightarrow> (string \<times> pyval) list \<Rightarrow> pyval io) list" where
  "public_api =
     [get_result_by_id, get_all_results, get_passed_results, get_result_by_lot_id,
      get_high_risk_results, get_failed_results, get_results_by_defect_type,
      get_quality_summary, get_quality_statistics, safe_get_result]"

text \<open>The requests an operation adds to those sent before it.\<close>

definition new_requests :: "'a io \<Rightarrow> request list \<Rightarrow> request list" where
  "new_requests m sent = drop (length sent) (snd (m sent))"

section \<open>The high-risk endpoint\<close>

text \<open>
  Modelled from the spec: the server behind \<^verbatim>\<open>GET /quality/results/high-risk\<close> is not
  part of the sources. The specification (section 4.2) gives the contract of its answer,
  an "ordered sequence of QualityResult, predictedRisk > threshold". \<open>predicted_risk\<close>
  reads the field of one result, and \<open>high_risk_answer t body\<close> says that a decoded body
  is a sequence of results that each carry a predicted risk above \<open>t\<close>.
\<close>

definition predicted_risk :: "pyval \<Rightarrow> real option" where
  "predicted_risk r =
     (case r of
        PDict kvs \<Rightarrow>
          (case map_of kvs ''predictedRisk'' of Some v \<Rightarrow> py_number v | None \<Rightarrow> None)
      | _ \<Rightarrow> None)"

definition high_risk_answer :: "real \<Rightarrow> pyval \<Rightarrow> bool" where
  "high_risk_answer t body =
     (case body of
        PList xs \<Rightarrow>
          list_all (\<lambda>r. case predicted_risk r of Some x \<Rightarrow> t < x | None \<Rightarrow> False) xs
      | _ \<Rightarrow> False)"

section \<open>Servers used in the examples\<close>

text \<open>
  The server of the specification's end-to-end scenario: it holds exactly one result, with
  id 1, classification -1, predicted risk 0.9 and no defect type, and answers 404 for any
  other address.
\<close>

definition scenario_result :: pyval where
  "scenario_result =
     PDict [(''resultId'', PInt 1), (''classification'', PInt (- 1)),
            (''predictedRisk'', PFloat (9 / 10))]"

definition scenario_runtime :: runtime where
  "scenario_runtime =
     \<lparr> send = (\<lambda>sent req.
                 if url req = ''http://localhost:8080/api/v1/quality/results/1''
                 then Inr \<lparr> status_code = 200, json_body = Some scenario_result \<rparr>
                 else Inr \<lparr> status_code = 404, json_body = Some (PDict []) \<rparr>),
       now_isoformat = ''2025-01-01T00:00:00'',
       format_other = (\<lambda>v. []) \<rparr>"

text \<open>A network on which every request fails to connect.\<close>

definition offline_runtime :: runtime where
  "offline_runtime =
     \<lparr> send = (\<lambda>sent req. Inl ''ConnectError''),
       now_isoformat = ''2025-01-01T00:00:00'',
       format_other = (\<lambda>v. []) \<rparr>"

text \<open>
  A server that holds two results, with predicted risks 0.9 and 0.1, and answers a request
  that carries a numeric \<open>threshold\<close> query parameter with the stored results above it.
\<close>

definition stored_results :: "pyval list" where
  "stored_results =
     [PDict [(''resultId'', PInt 1), (''predictedRisk'', PFloat (9 / 10))],
      PDict [(''resultId'', PInt 2), (''predictedRisk'', PFloat (1 / 10))]]"

definition filtering_runtime :: runtime where
  "filtering_runtime =
     \<lparr> send = (\<lambda>sent req.
                 case py_get (params req) ''threshold'' PNone of
                   Inl e \<Rightarrow> Inr \<lparr> status_code = 400, json_body = Some (PDict []) \<rparr>
                 | Inr v \<Rightarrow>
                     (case py_number v of
                        None \<Rightarrow> Inr \<lparr> status_code = 400, json_body = Some (PDict []) \<rparr>
                      | Some t \<Rightarrow>
                          Inr \<lparr> status_code = 200,
                                json_body = Some (PList (filter
                                  (\<lambda>r. case predicted_risk r of
                                          Some x \<Rightarrow> t < x
                                        | None \<Rightarrow> False)
                                  stored_results)) \<rparr>)),
       now_isoformat = ''2025-01-01T00:00:00'',
       format_other = (\<lambda>v. []) \<rparr>"

text \<open>A server that answers every request with the given status and an empty JSON object.\<close>

definition status_runtime :: "int \<Rightarrow> runtime" where
  "status_runtime code =
     \<lparr> send = (\<lambda>sent req. Inr \<lparr> status_code = code, json_body = Some (PDict []) \<rparr>),
       now_isoformat = ''2025-01-01T00:00:00'',
       format_other = (\<lambda>v. []) \<rparr>"

text \<open>A page of an empty result set, and a page holding two results.\<close>

definition empty_page :: pyval where
  "empty_page = PDict [(''totalElements'', PInt 0), (''content'', PList [])]"

definition two_result_page :: pyval where
  "two_result_page =
     PDict [(''totalElements'', PInt 2),
            (''content'', PList [PDict [(''resultId'', PInt 1), (''qualityScore'', PInt 90)],
                                 PDict [(''resultId'', PInt 2), (''qualityScore'', PNone)]])]"

text \<open>
  A server that answers the three paginated addresses and the high-risk address with
  status 200 and the given bodies.
\<close>

definition paged_runtime :: "pyval \<Rightarrow> pyval \<Rightarrow> pyval \<Rightarrow> pyval \<Rightarrow> runtime" where
  "paged_runtime all_page passed_page failed_page high_risk =
     \<lparr> send = (\<lambda>sent req.
                 Inr \<lparr> status_code = 200,
                       json_body = Some
                         (if url req = ''http://localhost:8080/api/v1/quality/results/passed''
                          then passed_page
                          else if url req = ''http://localhost:8080/api/v1/quality/results/failed''
                          then failed_page
                          else if url req = ''http://localhost:8080/api/v1/quality/results/high-risk''
                          then high_risk
                          else all_page) \<rparr>),
       now_isoformat = ''2025-01-01T00:00:00'',
       format_other = (\<lambda>v. []) \<rparr>"

text \<open>The request every query function sends, but for its address and query parameters.\<close>

definition get_request :: "string \<Rightarrow> pyval \<Rightarrow> request" where
  "get_request address query =
     \<lparr> http_method = PStr ''GET'', url = address, json = PNone, params = query,
       headers = [(''Content-Type'', ''application/json''), (''Accept'', ''application/json'')],
       timeout = PInt 30 \<rparr>"

section \<open>Argument binding\<close>

lemma io_raise_apply [simp]: "io_raise e sent = (Inl e, sent)"
  by (simp add: io_raise_def)

lemma io_lift_apply [simp]: "io_lift r sent = (r, sent)"
  by (simp add: io_lift_def)

lemma io_bind_raise [simp]: "io_bind (io_raise e) f = io_raise e"
  by (simp add: io_bind_def io_raise_def)

lemma bind_rest_error: "bind_rest ps kw = Inl e \<Longrightarrow> e = TypeError"
  by (induction ps kw rule: bind_rest.induct)
     (auto simp: err_bind_def split: option.splits sum.splits)

lemma bind_rest_length: "bind_rest ps kw = Inr vs \<Longrightarrow> length vs = length ps"
  by (induction ps kw arbitrary: vs rule: bind_rest.induct)
     (auto simp: err_bind_def split: option.splits sum.splits)

text \<open>Binding fails with \<open>TypeError\<close> only, and binds every parameter when it succeeds.\<close>

lemma bind_args_error: "bind_args ps pos kw = Inl e \<Longrightarrow> e = TypeError"
  by (auto simp: bind_args_def err_bind_def split: if_splits sum.splits dest: bind_rest_error)

lemma bind_args_length: "bind_args ps pos kw = Inr vs \<Longrightarrow> length vs = length ps"
  by (auto simp: bind_args_def err_bind_def split: if_splits sum.splits dest: bind_rest_length)

lemma bind_args_too_many: "length ps < length pos \<Longrightarrow> bind_args ps pos kw = Inl TypeError"
  by (simp add: bind_args_def)

lemma bind_args_unexpected_keyword:
  "k \<in> fst ` set kw \<Longrightarrow> k \<notin> fst ` set ps \<Longrightarrow> bind_args ps pos kw = Inl TypeError"
  by (auto simp: bind_args_def list_all_iff dest: in_set_dropD)

section \<open>The calls that pass a base URL\<close>

lemma get_result_by_id_two_positional:
  "get_result_by_id rt [a, b] [] = io_raise TypeError"
  by (simp add: get_result_by_id_def bind_args_too_many)

lemma get_quality_summary_raises:
  "get_quality_summary rt pos kw sent = (Inl TypeError, sent)"
proof (cases "bind_args [(''result_id'', None)] pos kw")
  case (Inl e)
  then show ?thesis
    by (simp add: get_quality_summary_def bind_args_error)
next
  case (Inr vs)
  then have "length vs = 1" by (simp add: bind_args_length)
  then obtain v where "vs = [v]" by (cases vs) auto
  with Inr show ?thesis
    by (simp add: get_quality_summary_def get_quality_summary_body_def
        get_result_by_id_two_positional)
qed

lemma safe_get_result_raises:
  "safe_get_result rt pos kw sent = (Inl TypeError, sent)"
proof (cases "bind_args [(''result_id'', None)] pos kw")
  case (Inl e)
  then show ?thesis
    by (simp add: safe_get_result_def bind_args_error)
next
  case (Inr vs)
  then have "length vs = 1" by (simp add: bind_args_length)
  then obtain v where "vs = [v]" by (cases vs) auto
  with Inr show ?thesis
    by (simp add: safe_get_result_def safe_get_result_body_def
        get_result_by_id_two_positional)
qed

text \<open>
  C4. Every invocation of \<^verbatim>\<open>get_quality_summary\<close> and of \<^verbatim>\<open>safe_get_result\<close>, whatever
  its arguments and whatever the network, raises \<open>TypeError\<close> and leaves the list of sent
  requests as it was: no HTTP request is issued. The cause is the call
  \<^verbatim>\<open>get_result_by_id(result_id, base_url)\<close>, whose two positional arguments do not fit the
  single parameter of \<^verbatim>\<open>get_result_by_id\<close>. The handlers of \<^verbatim>\<open>safe_get_result\<close> do not
  take the \<open>TypeError\<close>: the result is the raised error, not \<^verbatim>\<open>None\<close>.
\<close>

theorem summary_and_safe_lookup_raise_TypeError:
  "get_quality_summary rt pos kw sent = (Inl TypeError, sent)
   \<and> safe_get_result rt pos kw sent = (Inl TypeError, sent)
   \<and> get_result_by_id rt [result_id, base_url] [] sent = (Inl TypeError, sent)"
  by (simp add: get_quality_summary_raises safe_get_result_raises
      get_result_by_id_two_positional)

theorem summary_and_safe_lookup_raise_TypeError_witness:
  "get_quality_summary scenario_runtime [PInt 1] [] [] = (Inl TypeError, [])
   \<and> safe_get_result scenario_runtime [PInt 999] [] [] = (Inl TypeError, [])"
  using summary_and_safe_lookup_raise_TypeError [of scenario_runtime "[PInt 1]" "[]" "[]"]
    summary_and_safe_lookup_raise_TypeError [of scenario_runtime "[PInt 999]" "[]" "[]"]
  by simp

section \<open>Calls as the module makes them\<close>

lemma make_request_with_base_url:
  "make_request rt [m, e] [(''base_url'', b)] = make_request_body rt m e b PNone PNone (PInt 30)"
  by (simp add: make_request_def make_request_parameters_def bind_args_def err_bind_def)

lemma make_request_with_base_url_params:
  "make_request rt [m, e] [(''base_url'', b), (''params'', p)] =
     make_request_body rt m e b PNone p (PInt 30)"
  by (simp add: make_request_def make_request_parameters_def bind_args_def err_bind_def)

lemma make_request_body_string_url:
  "make_request_body rt (PStr ''GET'') (PStr e) (PStr b) PNone p (PInt 30) sent =
     (case send rt sent (get_request (b @ e) p) of
        Inl kind \<Rightarrow> Inl (RequestError kind)
      | Inr resp \<Rightarrow> raise_for_status resp,
      sent @ [get_request (b @ e) p])"
  by (simp add: make_request_body_def get_request_def Let_def)

lemma get_result_by_id_one_positional:
  "get_result_by_id rt [v] [] = get_result_by_id_body rt v"
  by (simp add: get_result_by_id_def bind_args_def err_bind_def)

lemma get_all_results_no_arguments:
  "get_all_results rt [] [] = get_all_results_body rt PNone PNone"
  by (simp add: get_all_results_def page_parameters_def bind_args_def err_bind_def)

lemma get_passed_results_base_url_keyword:
  "get_passed_results rt [] [(''base_url'', b)] = io_raise TypeError"
  by (simp add: get_passed_results_def page_parameters_def
      bind_args_unexpected_keyword [of "''base_url''"])

lemma get_failed_results_base_url_keyword:
  "get_failed_results rt [] [(''base_url'', b)] = io_raise TypeError"
  by (simp add: get_failed_results_def page_parameters_def
      bind_args_unexpected_keyword [of "''base_url''"])

lemma get_high_risk_results_base_url_keyword:
  "get_high_risk_results rt [] [(''base_url'', b)] = io_raise TypeError"
  by (simp add: get_high_risk_results_def
      bind_args_unexpected_keyword [of "''base_url''"])

text \<open>
  \<^verbatim>\<open>get_quality_statistics()\<close> ends at its second call: it raises there when the first
  call returned, and passes the first call's exception on otherwise.
\<close>

lemma get_quality_statistics_body_outcome:
  "get_quality_statistics_body rt sent =
     (case get_all_results rt [] [] sent of
        (Inl e, sent') \<Rightarrow> (Inl e, sent')
      | (Inr page, sent') \<Rightarrow> (Inl TypeError, sent'))"
  by (simp add: get_quality_statistics_body_def io_bind_def
      get_passed_results_base_url_keyword split: prod.splits sum.splits)

lemma get_quality_statistics_no_arguments:
  "get_quality_statistics rt [] [] = get_quality_statistics_body rt"
  by (simp add: get_quality_statistics_def bind_args_def err_bind_def)

lemma get_quality_statistics_with_arguments:
  "pos \<noteq> [] \<or> kw \<noteq> [] \<Longrightarrow> get_quality_statistics rt pos kw = io_raise TypeError"
  by (cases pos; cases kw) (auto simp: get_quality_statistics_def bind_args_def)

lemma get_all_results_body_paged:
  "get_all_results_body (paged_runtime a p f h) PNone PNone [] =
     (Inr a, [get_request ''http://localhost:8080/api/v1/quality/results'' PNone])"
  by (simp add: get_all_results_body_def make_request_with_base_url_params
      make_request_body_string_url page_size_params_def DEFAULT_BASE_URL_def io_bind_def
      paged_runtime_def get_request_def raise_for_status_def response_json_def)

section \<open>The local computations of the two derived views\<close>

lemma pass_rate_zero_total: "pass_rate passed_count (PInt 0) = Inr (PInt 0)"
  by (simp add: pass_rate_def py_gt_def err_bind_def)

lemma pass_rate_positive_total:
  "0 < t \<Longrightarrow>
   pass_rate (PInt p) (PInt t) = Inr (PFloat (real_of_int p / real_of_int t * 100))"
  by (simp add: pass_rate_def py_gt_def py_truediv_def py_mul_def err_bind_def)

lemma average_quality_score_empty: "average_quality_score (PList []) = Inr (PInt 0)"
  by (simp add: average_quality_score_def)

lemma quality_statistics_of_empty:
  "quality_statistics_of rt empty_page empty_page empty_page (PList []) =
     Inr (PDict [(''total_results'', PInt 0), (''passed_count'', PInt 0),
                 (''failed_count'', PInt 0), (''high_risk_count'', PInt 0),
                 (''pass_rate'', PInt 0), (''average_quality_score'', PInt 0),
                 (''statistics_generated_at'', PStr (now_isoformat rt))])"
  by (simp add: quality_statistics_of_def empty_page_def py_get_def err_bind_def
      pass_rate_zero_total average_quality_score_empty)

lemma quality_statistics_of_two_results:
  "quality_statistics_of rt two_result_page two_result_page empty_page (PList []) =
     Inr (PDict [(''total_results'', PInt 2), (''passed_count'', PInt 2),
                 (''failed_count'', PInt 0), (''high_risk_count'', PInt 0),
                 (''pass_rate'', PFloat 100), (''average_quality_score'', PFloat 45),
                 (''statistics_generated_at'', PStr (now_isoformat rt))])"
  by (simp add: quality_statistics_of_def empty_page_def two_result_page_def py_get_def
      err_bind_def py_gt_def pass_rate_def average_quality_score_def py_add_def
      py_truediv_def py_mul_def)

lemma scenario_fetch:
  "get_result_by_id scenario_runtime [PInt 1] [] [] =
     (Inr scenario_result,
      [get_request ''http://localhost:8080/api/v1/quality/results/1'' PNone])"
  by (simp add: get_result_by_id_one_positional get_result_by_id_body_def
      make_request_with_base_url make_request_body_string_url io_bind_def
      scenario_runtime_def str_int_def str_nat.simps DEFAULT_BASE_URL_def
      get_request_def raise_for_status_def response_json_def)

lemma scenario_fetch_missing:
  "get_result_by_id scenario_runtime [PInt 999] [] [] =
     (Inl (HTTPStatusError \<lparr> status_code = 404, json_body = Some (PDict []) \<rparr>),
      [get_request ''http://localhost:8080/api/v1/quality/results/999'' PNone])"
  by (simp add: get_result_by_id_one_positional get_result_by_id_body_def
      make_request_with_base_url make_request_body_string_url io_bind_def
      scenario_runtime_def str_int_def str_nat.simps DEFAULT_BASE_URL_def
      get_request_def raise_for_status_def response_json_def)

lemma scenario_summary:
  "quality_summary_of scenario_runtime scenario_result =
     Inr (PDict [(''result'', scenario_result), (''is_passed'', PBool True),
                 (''is_high_risk'', PBool True), (''has_defects'', PBool False),
                 (''summary_generated_at'', PStr ''2025-01-01T00:00:00'')])"
  by (simp add: quality_summary_of_def scenario_result_def py_get_def err_bind_def
      py_gt_def py_eq_int_def scenario_runtime_def)

section \<open>The derived views and the resilient lookup on a running server\<close>

text \<open>
  C1. On the server of the end-to-end scenario, fetching result 1 with
  \<^verbatim>\<open>get_result_by_id(1)\<close> returns the stored record, and the summary built from that record
  has \<open>is_passed = True\<close>, \<open>is_high_risk = True\<close> and \<open>has_defects = False\<close>; yet
  \<^verbatim>\<open>get_quality_summary(1)\<close> raises \<open>TypeError\<close> without sending a request, and returns no
  record.
\<close>

theorem get_quality_summary_scenario_raises:
  "get_result_by_id scenario_runtime [PInt 1] [] [] =
     (Inr scenario_result,
      [get_request ''http://localhost:8080/api/v1/quality/results/1'' PNone])
   \<and> quality_summary_of scenario_runtime scenario_result =
     Inr (PDict [(''result'', scenario_result), (''is_passed'', PBool True),
                 (''is_high_risk'', PBool True), (''has_defects'', PBool False),
                 (''summary_generated_at'', PStr ''2025-01-01T00:00:00'')])
   \<and> get_quality_summary scenario_runtime [PInt 1] [] [] = (Inl TypeError, [])"
  by (simp add: scenario_fetch scenario_summary get_quality_summary_raises)

text \<open>
  C2. On the same server, \<^verbatim>\<open>get_result_by_id(999)\<close> fails with the status error of a 404
  response, and on a network without connection it fails with a transport error; in both
  cases \<^verbatim>\<open>safe_get_result\<close> raises \<open>TypeError\<close> instead of returning \<^verbatim>\<open>None\<close>.
\<close>

theorem safe_get_result_not_found_raises:
  "get_result_by_id scenario_runtime [PInt 999] [] [] =
     (Inl (HTTPStatusError \<lparr> status_code = 404, json_body = Some (PDict []) \<rparr>),
      [get_request ''http://localhost:8080/api/v1/quality/results/999'' PNone])
   \<and> safe_get_result scenario_runtime [PInt 999] [] [] = (Inl TypeError, [])
   \<and> fst (get_result_by_id offline_runtime [PInt 1] [] []) = Inl (RequestError ''ConnectError'')
   \<and> safe_get_result offline_runtime [PInt 1] [] [] = (Inl TypeError, [])"
proof -
  have "fst (get_result_by_id offline_runtime [PInt 1] [] []) =
          Inl (RequestError ''ConnectError'')"
    by (simp add: get_result_by_id_one_positional get_result_by_id_body_def
        make_request_with_base_url make_request_body_def io_bind_def offline_runtime_def
        Let_def)
  then show ?thesis
    using scenario_fetch_missing safe_get_result_raises by simp
qed

text \<open>
  C3. On a server whose result set is empty, the statistics dict built from the four
  responses would hold \<open>pass_rate = 0\<close>; yet \<^verbatim>\<open>get_quality_statistics()\<close> raises
  \<open>TypeError\<close> after its first request, and returns no pass rate.
\<close>

theorem get_quality_statistics_empty_raises:
  "quality_statistics_of (paged_runtime empty_page empty_page empty_page (PList []))
       empty_page empty_page empty_page (PList []) =
     Inr (PDict [(''total_results'', PInt 0), (''passed_count'', PInt 0),
                 (''failed_count'', PInt 0), (''high_risk_count'', PInt 0),
                 (''pass_rate'', PInt 0), (''average_quality_score'', PInt 0),
                 (''statistics_generated_at'', PStr ''2025-01-01T00:00:00'')])
   \<and> get_quality_statistics (paged_runtime empty_page empty_page empty_page (PList []))
       [] [] [] =
     (Inl TypeError, [get_request ''http://localhost:8080/api/v1/quality/results'' PNone])"
  by (simp add: quality_statistics_of_empty get_quality_statistics_no_arguments
      get_quality_statistics_body_outcome get_all_results_no_arguments
      get_all_results_body_paged)
     (simp add: paged_runtime_def)

text \<open>
  C7. On a server whose first page holds two results, with quality scores 90 and null, the
  statistics dict built from the four responses would hold the average 45; yet
  \<^verbatim>\<open>get_quality_statistics()\<close> raises \<open>TypeError\<close> after its first request, and returns no
  average.
\<close>

theorem get_quality_statistics_two_results_raises:
  "quality_statistics_of (paged_runtime two_result_page two_result_page empty_page (PList []))
       two_result_page two_result_page empty_page (PList []) =
     Inr (PDict [(''total_results'', PInt 2), (''passed_count'', PInt 2),
                 (''failed_count'', PInt 0), (''high_risk_count'', PInt 0),
                 (''pass_rate'', PFloat 100), (''average_quality_score'', PFloat 45),
                 (''statistics_generated_at'', PStr ''2025-01-01T00:00:00'')])
   \<and> get_quality_statistics (paged_runtime two_result_page two_result_page empty_page (PList []))
       [] [] [] =
     (Inl TypeError, [get_request ''http://localhost:8080/api/v1/quality/results'' PNone])"
  by (simp add: quality_statistics_of_two_results get_quality_statistics_no_arguments
      get_quality_statistics_body_outcome get_all_results_no_arguments
      get_all_results_body_paged)
     (simp add: paged_runtime_def)

text \<open>
  C5 as stated fails where the first call fails: without a connection, or on a server that
  answers status 500, \<^verbatim>\<open>get_quality_statistics()\<close> raises the error of
  \<^verbatim>\<open>get_all_results()\<close>, not a \<open>TypeError\<close>.
\<close>

theorem get_quality_statistics_first_call_fails:
  "fst (get_quality_statistics offline_runtime [] [] []) = Inl (RequestError ''ConnectError'')
   \<and> fst (get_quality_statistics (status_runtime 500) [] [] []) =
       Inl (HTTPStatusError \<lparr> status_code = 500, json_body = Some (PDict []) \<rparr>)
   \<and> fst (get_quality_statistics offline_runtime [] [] []) \<noteq> Inl TypeError"
proof -
  have "fst (get_quality_statistics offline_runtime [] [] []) =
          Inl (RequestError ''ConnectError'')"
    by (simp add: get_quality_statistics_no_arguments get_quality_statistics_body_outcome
        get_all_results_no_arguments get_all_results_body_def
        make_request_with_base_url_params make_request_body_def io_bind_def
        offline_runtime_def Let_def)
  moreover have "fst (get_quality_statistics (status_runtime 500) [] [] []) =
          Inl (HTTPStatusError \<lparr> status_code = 500, json_body = Some (PDict []) \<rparr>)"
    by (simp add: get_quality_statistics_no_arguments get_quality_statistics_body_outcome
        get_all_results_no_arguments get_all_results_body_def
        make_request_with_base_url_params make_request_body_def io_bind_def
        status_runtime_def raise_for_status_def Let_def)
  ultimately show ?thesis by simp
qed

text \<open>
  C5, amended. No invocation of \<^verbatim>\<open>get_quality_statistics\<close> returns a statistics record.
  Called without arguments it sends the request of \<^verbatim>\<open>get_all_results()\<close>; when that call
  returns, the next call \<^verbatim>\<open>get_passed_results(base_url=base_url)\<close> raises \<open>TypeError\<close>,
  and when that call fails, its error propagates. None of \<^verbatim>\<open>get_passed_results\<close>,
  \<^verbatim>\<open>get_failed_results\<close> and \<^verbatim>\<open>get_high_risk_results\<close> accepts a \<^verbatim>\<open>base_url\<close> keyword.
\<close>

theorem get_quality_statistics_never_returns:
  "get_quality_statistics rt [] [] sent =
     (case get_all_results rt [] [] sent of
        (Inl e, sent') \<Rightarrow> (Inl e, sent')
      | (Inr page, sent') \<Rightarrow> (Inl TypeError, sent'))
   \<and> (\<exists>e sent'. get_quality_statistics rt pos kw sent = (Inl e, sent'))
   \<and> get_passed_results rt [] [(''base_url'', b)] sent = (Inl TypeError, sent)
   \<and> get_failed_results rt [] [(''base_url'', b)] sent = (Inl TypeError, sent)
   \<and> get_high_risk_results rt [] [(''base_url'', b)] sent = (Inl TypeError, sent)"
proof -
  have outcome: "get_quality_statistics rt [] [] sent =
     (case get_all_results rt [] [] sent of
        (Inl e, sent') \<Rightarrow> (Inl e, sent')
      | (Inr page, sent') \<Rightarrow> (Inl TypeError, sent'))"
    by (simp only: get_quality_statistics_no_arguments get_quality_statistics_body_outcome)
  have "\<exists>e sent'. get_quality_statistics rt pos kw sent = (Inl e, sent')"
  proof (cases "pos = [] \<and> kw = []")
    case True
    with outcome show ?thesis
      by (auto split: prod.splits sum.splits)
  next
    case False
    then show ?thesis
      by (simp add: get_quality_statistics_with_arguments)
  qed
  then show ?thesis
    using outcome
    by (simp add: get_passed_results_base_url_keyword get_failed_results_base_url_keyword
        get_high_risk_results_base_url_keyword)
qed

theorem get_quality_statistics_never_returns_witness:
  "get_quality_statistics (paged_runtime empty_page empty_page empty_page (PList [])) [] [] [] =
     (Inl TypeError, [get_request ''http://localhost:8080/api/v1/quality/results'' PNone])"
  using get_quality_statistics_never_returns
    [of "paged_runtime empty_page empty_page empty_page (PList [])" "[]" "[]" "[]"]
  by (simp add: get_all_results_no_arguments get_all_results_body_paged)

section \<open>The request dispatcher's contract\<close>

lemma make_request_body_sent:
  "snd (make_request_body rt m e b j p t sent) =
     sent @ [\<lparr> http_method = m, url = py_format rt b @ py_format rt e, json = j, params = p,
               headers = [(''Content-Type'', ''application/json''),
                          (''Accept'', ''application/json'')],
               timeout = t \<rparr>]"
  by (simp add: make_request_body_def Let_def)

lemma make_request_body_result:
  "fst (make_request_body rt m e b j p t sent) =
     (case send rt sent
             \<lparr> http_method = m, url = py_format rt b @ py_format rt e, json = j, params = p,
               headers = [(''Content-Type'', ''application/json''),
                          (''Accept'', ''application/json'')],
               timeout = t \<rparr> of
        Inl kind \<Rightarrow> Inl (RequestError kind)
      | Inr resp \<Rightarrow> raise_for_status resp)"
  by (simp add: make_request_body_def Let_def)

lemma make_request_bound:
  "bind_args make_request_parameters pos kw = Inr [m, e, b, j, p, t] \<Longrightarrow>
   make_request rt pos kw = make_request_body rt m e b j p t"
  by (simp add: make_request_def)

text \<open>
  C6. Whenever a call of \<^verbatim>\<open>_make_request\<close> binds its arguments, with base URL and
  endpoint strings, it sends exactly one request; the address of that request is the base
  URL followed by the endpoint, unchanged, and its headers set both \<open>Content-Type\<close> and
  \<open>Accept\<close> to \<open>application/json\<close>. A response with a status from 200 to 299 is returned;
  on a response with any other status the call fails with the \<open>HTTPStatusError\<close> that
  carries that response, status code and body.
\<close>

theorem make_request_contract:
  assumes "bind_args make_request_parameters pos kw =
             Inr [m, PStr endpoint, PStr base_url, j, p, t]"
  shows "\<exists>req. snd (make_request rt pos kw sent) = sent @ [req]
           \<and> url req = base_url @ endpoint
           \<and> map_of (headers req) ''Content-Type'' = Some ''application/json''
           \<and> map_of (headers req) ''Accept'' = Some ''application/json''
           \<and> (\<forall>resp. send rt sent req = Inr resp \<longrightarrow>
                  fst (make_request rt pos kw sent) =
                    (if 200 \<le> status_code resp \<and> status_code resp \<le> 299 then Inr resp
                     else Inl (HTTPStatusError resp)))"
  using assms
  by (simp add: make_request_bound make_request_body_sent make_request_body_result
      raise_for_status_def)

theorem make_request_contract_witness:
  "snd (make_request (status_runtime 503) [PStr ''GET'', PStr ''/quality/results'']
          [(''base_url'', PStr ''http://example.org/api'')] []) =
     [get_request ''http://example.org/api/quality/results'' PNone]
   \<and> fst (make_request (status_runtime 503) [PStr ''GET'', PStr ''/quality/results'']
          [(''base_url'', PStr ''http://example.org/api'')] []) =
     Inl (HTTPStatusError \<lparr> status_code = 503, json_body = Some (PDict []) \<rparr>)"
proof -
  have bound: "bind_args make_request_parameters [PStr ''GET'', PStr ''/quality/results'']
                 [(''base_url'', PStr ''http://example.org/api'')] =
               Inr [PStr ''GET'', PStr ''/quality/results'', PStr ''http://example.org/api'',
                    PNone, PNone, PInt 30]"
    by (simp add: make_request_parameters_def bind_args_def err_bind_def)
  from make_request_contract [OF bound, of "status_runtime 503" "[]"]
  obtain req where
    sent: "snd (make_request (status_runtime 503) [PStr ''GET'', PStr ''/quality/results'']
             [(''base_url'', PStr ''http://example.org/api'')] []) = [] @ [req]"
    and res: "\<forall>resp. send (status_runtime 503) [] req = Inr resp \<longrightarrow>
       fst (make_request (status_runtime 503) [PStr ''GET'', PStr ''/quality/results'']
             [(''base_url'', PStr ''http://example.org/api'')] []) =
        (if 200 \<le> status_code resp \<and> status_code resp \<le> 299 then Inr resp
         else Inl (HTTPStatusError resp))"
    by blast
  have "send (status_runtime 503) [] req =
          Inr \<lparr> status_code = 503, json_body = Some (PDict []) \<rparr>"
    by (simp add: status_runtime_def)
  with res have "fst (make_request (status_runtime 503) [PStr ''GET'', PStr ''/quality/results'']
             [(''base_url'', PStr ''http://example.org/api'')] []) =
     Inl (HTTPStatusError \<lparr> status_code = 503, json_body = Some (PDict []) \<rparr>)"
    by simp
  moreover have "snd (make_request (status_runtime 503) [PStr ''GET'', PStr ''/quality/results'']
          [(''base_url'', PStr ''http://example.org/api'')] []) =
     [get_request ''http://example.org/api/quality/results'' PNone]"
    by (simp add: make_request_bound [OF bound] make_request_body_sent get_request_def)
  ultimately show ?thesis by simp
qed

section \<open>Pagination parameters\<close>

lemma paginated_bind:
  "bind_args page_parameters [page, size_arg] [] = Inr [page, size_arg]"
  "bind_args page_parameters [page] [] = Inr [page, PNone]"
  "bind_args page_parameters [] [] = Inr [PNone, PNone]"
  "bind_args page_parameters [] [(''page'', page)] = Inr [page, PNone]"
  "bind_args page_parameters [] [(''size'', size_arg)] = Inr [PNone, size_arg]"
  "bind_args page_parameters [] [(''page'', page), (''size'', size_arg)] = Inr [page, size_arg]"
  by (simp_all add: page_parameters_def bind_args_def err_bind_def)

lemma page_size_params_cases:
  "page_size_params page size_arg =
     (if page = PNone \<and> size_arg = PNone then PNone
      else PDict ((if page = PNone then [] else [(''page'', page)]) @
                  (if size_arg = PNone then [] else [(''size'', size_arg)])))"
  by (simp add: page_size_params_def Let_def)

lemma paginated_body_sent:
  "snd (get_all_results_body rt page size_arg sent) =
     sent @ [get_request (DEFAULT_BASE_URL @ ''/quality/results'')
               (page_size_params page size_arg)]"
  "snd (get_passed_results_body rt page size_arg sent) =
     sent @ [get_request (DEFAULT_BASE_URL @ ''/quality/results/passed'')
               (page_size_params page size_arg)]"
  "snd (get_failed_results_body rt page size_arg sent) =
     sent @ [get_request (DEFAULT_BASE_URL @ ''/quality/results/failed'')
               (page_size_params page size_arg)]"
  by (simp_all add: get_all_results_body_def get_passed_results_body_def
      get_failed_results_body_def make_request_with_base_url_params make_request_body_def
      io_bind_def get_request_def Let_def split: sum.splits)

text \<open>
  C8. A call of \<^verbatim>\<open>get_all_results\<close>, \<^verbatim>\<open>get_passed_results\<close> or \<^verbatim>\<open>get_failed_results\<close>
  with page and size sends one request whose query parameters hold exactly the arguments
  that are not \<^verbatim>\<open>None\<close>, each unmodified under its own name, and no query-parameter
  mapping at all when both are \<^verbatim>\<open>None\<close>. An omitted argument is the argument
  \<^verbatim>\<open>None\<close>, whether the others are passed by position or by keyword.
\<close>

theorem pagination_parameters_pass_through:
  "(let query = (if page = PNone \<and> size_arg = PNone then PNone
                 else PDict ((if page = PNone then [] else [(''page'', page)]) @
                             (if size_arg = PNone then [] else [(''size'', size_arg)])))
    in snd (get_all_results rt [page, size_arg] [] sent) =
         sent @ [get_request (DEFAULT_BASE_URL @ ''/quality/results'') query]
     \<and> snd (get_passed_results rt [page, size_arg] [] sent) =
         sent @ [get_request (DEFAULT_BASE_URL @ ''/quality/results/passed'') query]
     \<and> snd (get_failed_results rt [page, size_arg] [] sent) =
         sent @ [get_request (DEFAULT_BASE_URL @ ''/quality/results/failed'') query])
   \<and> list_all (\<lambda>f. f rt [] [] = f rt [PNone, PNone] []
                   \<and> f rt [page] [] = f rt [page, PNone] []
                   \<and> f rt [] [(''page'', page)] = f rt [page, PNone] []
                   \<and> f rt [] [(''size'', size_arg)] = f rt [PNone, size_arg] []
                   \<and> f rt [] [(''page'', page), (''size'', size_arg)] =
                       f rt [page, size_arg] [])
        [get_all_results, get_passed_results, get_failed_results]"
  by (simp add: get_all_results_def get_passed_results_def get_failed_results_def
      paginated_bind paginated_body_sent page_size_params_cases Let_def)

theorem pagination_parameters_pass_through_witness:
  "snd (get_all_results offline_runtime [PInt 1, PInt 50] [] []) =
     [get_request ''http://localhost:8080/api/v1/quality/results''
        (PDict [(''page'', PInt 1), (''size'', PInt 50)])]
   \<and> snd (get_passed_results offline_runtime [PNone, PInt 0] [] []) =
     [get_request ''http://localhost:8080/api/v1/quality/results/passed''
        (PDict [(''size'', PInt 0)])]
   \<and> snd (get_failed_results offline_runtime [PNone, PNone] [] []) =
     [get_request ''http://localhost:8080/api/v1/quality/results/failed'' PNone]"
  using pagination_parameters_pass_through [of "PInt 1" "PInt 50" offline_runtime "[]"]
    pagination_parameters_pass_through [of PNone "PInt 0" offline_runtime "[]"]
    pagination_parameters_pass_through [of PNone PNone offline_runtime "[]"]
  by (simp add: DEFAULT_BASE_URL_def Let_def)

section \<open>High-risk results\<close>

lemma get_high_risk_results_bind:
  "get_high_risk_results rt [threshold] [] = get_high_risk_results_body rt threshold"
  "get_high_risk_results rt [] [] = get_high_risk_results_body rt (PFloat (7 / 10))"
  "get_high_risk_results rt [] [(''threshold'', threshold)] =
     get_high_risk_results_body rt threshold"
  by (simp_all add: get_high_risk_results_def bind_args_def err_bind_def)

lemma get_high_risk_results_body_outcome:
  "get_high_risk_results_body rt threshold sent =
     (case send rt sent (get_request (DEFAULT_BASE_URL @ ''/quality/results/high-risk'')
                           (PDict [(''threshold'', threshold)])) of
        Inl kind \<Rightarrow> Inl (RequestError kind)
      | Inr resp \<Rightarrow> err_bind (raise_for_status resp) response_json,
      sent @ [get_request (DEFAULT_BASE_URL @ ''/quality/results/high-risk'')
                (PDict [(''threshold'', threshold)])])"
  by (simp add: get_high_risk_results_body_def make_request_with_base_url_params
      make_request_body_def io_bind_def get_request_def err_bind_def Let_def
      split: sum.splits)

text \<open>
  What a call that returned has done: it sent the one request that carries the threshold,
  the answer had a status from 200 to 299, and the value returned is the decoded body of
  that answer, unchanged.
\<close>

lemma get_high_risk_results_returned:
  assumes "get_high_risk_results rt [threshold] [] sent = (Inr results, sent')"
  shows "\<exists>resp. send rt sent (get_request (DEFAULT_BASE_URL @ ''/quality/results/high-risk'')
                                (PDict [(''threshold'', threshold)])) = Inr resp
                \<and> 200 \<le> status_code resp \<and> status_code resp \<le> 299
                \<and> json_body resp = Some results"
    and "sent' = sent @ [get_request (DEFAULT_BASE_URL @ ''/quality/results/high-risk'')
                           (PDict [(''threshold'', threshold)])]"
  using assms
  by (auto simp: get_high_risk_results_bind get_high_risk_results_body_outcome
      raise_for_status_def response_json_def err_bind_def
      split: sum.splits if_splits option.splits)

text \<open>
  C9. For every threshold \<open>t\<close>, on a server whose answer to the high-risk request with
  that threshold keeps the endpoint's contract, every element of the sequence that
  \<^verbatim>\<open>get_high_risk_results(t)\<close> returns has a predicted risk above \<open>t\<close>, and no element
  with a predicted risk of \<open>t\<close> or less is included. The threshold is sent to the server,
  unmodified, as the query parameter \<open>threshold\<close> of the one request of the call, and an
  omitted threshold is 0.7.
\<close>

theorem high_risk_results_above_threshold:
  assumes number: "py_number threshold = Some t"
    and contract: "\<And>resp body.
          send rt sent (get_request (DEFAULT_BASE_URL @ ''/quality/results/high-risk'')
                          (PDict [(''threshold'', threshold)])) = Inr resp \<Longrightarrow>
          200 \<le> status_code resp \<Longrightarrow> status_code resp \<le> 299 \<Longrightarrow>
          json_body resp = Some body \<Longrightarrow> high_risk_answer t body"
    and returned: "get_high_risk_results rt [threshold] [] sent = (Inr results, sent')"
  shows "(\<exists>xs. results = PList xs
            \<and> (\<forall>r\<in>set xs. \<exists>x. predicted_risk r = Some x \<and> t < x)
            \<and> \<not> (\<exists>r\<in>set xs. \<exists>x. predicted_risk r = Some x \<and> x \<le> t))
         \<and> sent' = sent @ [get_request (DEFAULT_BASE_URL @ ''/quality/results/high-risk'')
                              (PDict [(''threshold'', threshold)])]
         \<and> get_high_risk_results rt [] [] = get_high_risk_results rt [PFloat (7 / 10)] []
         \<and> get_high_risk_results rt [] [(''threshold'', threshold)] =
             get_high_risk_results rt [threshold] []"
proof -
  from get_high_risk_results_returned(1) [OF returned] obtain resp where
    "send rt sent (get_request (DEFAULT_BASE_URL @ ''/quality/results/high-risk'')
                     (PDict [(''threshold'', threshold)])) = Inr resp"
    "200 \<le> status_code resp" "status_code resp \<le> 299" "json_body resp = Some results"
    by blast
  then have "high_risk_answer t results" by (rule contract)
  then obtain xs where xs: "results = PList xs"
    and above: "\<forall>r\<in>set xs. \<exists>x. predicted_risk r = Some x \<and> t < x"
    by (cases results) (auto simp: high_risk_answer_def list_all_iff split: option.splits)
  from above have "\<not> (\<exists>r\<in>set xs. \<exists>x. predicted_risk r = Some x \<and> x \<le> t)"
    by fastforce
  with xs above show ?thesis
    using get_high_risk_results_returned(2) [OF returned]
    by (simp add: get_high_risk_results_bind)
qed

theorem high_risk_results_above_threshold_witness:
  "get_high_risk_results filtering_runtime [PFloat (8 / 10)] [] [] =
     (Inr (PList [PDict [(''resultId'', PInt 1), (''predictedRisk'', PFloat (9 / 10))]]),
      [get_request ''http://localhost:8080/api/v1/quality/results/high-risk''
         (PDict [(''threshold'', PFloat (8 / 10))])])
   \<and> (\<exists>xs. PList [PDict [(''resultId'', PInt 1), (''predictedRisk'', PFloat (9 / 10))]] =
              PList xs
          \<and> list_all (\<lambda>r. \<exists>x. predicted_risk r = Some x \<and> 8 / 10 < x) xs)"
proof -
  have number: "py_number (PFloat (8 / 10)) = Some (8 / 10)" by simp
  have contract: "\<And>resp body.
          send filtering_runtime []
            (get_request (DEFAULT_BASE_URL @ ''/quality/results/high-risk'')
               (PDict [(''threshold'', PFloat (8 / 10))])) = Inr resp \<Longrightarrow>
          200 \<le> status_code resp \<Longrightarrow> status_code resp \<le> 299 \<Longrightarrow>
          json_body resp = Some body \<Longrightarrow> high_risk_answer (8 / 10) body"
    by (auto simp: filtering_runtime_def get_request_def py_get_def stored_results_def
        predicted_risk_def high_risk_answer_def)
  have returned: "get_high_risk_results filtering_runtime [PFloat (8 / 10)] [] [] =
     (Inr (PList [PDict [(''resultId'', PInt 1), (''predictedRisk'', PFloat (9 / 10))]]),
      [get_request ''http://localhost:8080/api/v1/quality/results/high-risk''
         (PDict [(''threshold'', PFloat (8 / 10))])])"
    by (simp add: get_high_risk_results_bind get_high_risk_results_body_outcome
        filtering_runtime_def get_request_def py_get_def stored_results_def
        predicted_risk_def raise_for_status_def response_json_def err_bind_def
        DEFAULT_BASE_URL_def)
  from high_risk_results_above_threshold [OF number contract returned]
  have "\<exists>xs. PList [PDict [(''resultId'', PInt 1), (''predictedRisk'', PFloat (9 / 10))]] =
               PList xs
          \<and> list_all (\<lambda>r. \<exists>x. predicted_risk r = Some x \<and> 8 / 10 < x) xs"
    by (auto simp: list_all_iff)
  with returned show ?thesis by simp
qed

section \<open>Base URL and timeout\<close>

lemma make_request_overrides:
  "make_request rt [m, e] [(''base_url'', b), (''timeout'', t)] =
     make_request_body rt m e b PNone PNone t"
  "make_request rt [m, e] [] =
     make_request_body rt m e (PStr DEFAULT_BASE_URL) PNone PNone (PInt 30)"
  by (simp_all add: make_request_def make_request_parameters_def bind_args_def err_bind_def)

lemma io_bind_lift_snd: "snd (io_bind m (\<lambda>x. io_lift (g x)) sent) = snd (m sent)"
  by (simp add: io_bind_def split: prod.splits sum.splits)

lemma new_requests_raise [simp]: "new_requests (io_raise e) sent = []"
  by (simp add: new_requests_def)

lemma single_parameter_bodies_sent:
  "snd (get_result_by_id_body rt v sent) =
     sent @ [get_request (DEFAULT_BASE_URL @ ''/quality/results/'' @ py_format rt v) PNone]"
  "snd (get_result_by_lot_id_body rt v sent) =
     sent @ [get_request (DEFAULT_BASE_URL @ ''/quality/results/lot/'' @ py_format rt v) PNone]"
  "snd (get_results_by_defect_type_body rt v sent) =
     sent @ [get_request (DEFAULT_BASE_URL @ ''/quality/results/defect/'' @ py_format rt v)
               PNone]"
  by (simp_all add: get_result_by_id_body_def get_result_by_lot_id_body_def
      get_results_by_defect_type_body_def make_request_with_base_url make_request_body_sent
      io_bind_lift_snd get_request_def)

text \<open>
  An operation keeps the requests sent before it and adds only requests with the default
  timeout.
\<close>

lemma default_timeout_raise:
  "take (length sent) (snd (io_raise e sent)) = sent
   \<and> list_all (\<lambda>q. timeout q = PInt 30) (new_requests (io_raise e) sent)"
  by simp

lemma default_timeout_one_request:
  "snd (m sent) = sent @ [get_request address query] \<Longrightarrow>
   take (length sent) (snd (m sent)) = sent
   \<and> list_all (\<lambda>q. timeout q = PInt 30) (new_requests m sent)"
  by (simp add: new_requests_def get_request_def)

lemma default_timeout_one_parameter:
  assumes f: "\<And>pos kw. f rt pos kw =
                (case bind_args [(name, dflt)] pos kw of
                   Inl e \<Rightarrow> io_raise e
                 | Inr [v] \<Rightarrow> body rt v
                 | Inr _ \<Rightarrow> io_raise TypeError)"
    and body: "\<And>v sent. \<exists>address query. snd (body rt v sent) = sent @ [get_request address query]"
  shows "take (length sent) (snd (f rt pos kw sent)) = sent
         \<and> list_all (\<lambda>q. timeout q = PInt 30) (new_requests (f rt pos kw) sent)"
proof (cases "bind_args [(name, dflt)] pos kw")
  case (Inl e)
  then show ?thesis by (simp add: f)
next
  case (Inr vs)
  then have "length vs = 1" by (simp add: bind_args_length)
  then obtain v where vs: "vs = [v]" by (cases vs) auto
  from body obtain address query
    where "snd (body rt v sent) = sent @ [get_request address query]" by blast
  then show ?thesis
    using Inr vs default_timeout_one_request [of "body rt v" sent address query]
    by (simp add: f)
qed

lemma default_timeout_two_parameters:
  assumes f: "\<And>pos kw. f rt pos kw =
                (case bind_args page_parameters pos kw of
                   Inl e \<Rightarrow> io_raise e
                 | Inr [page, size_arg] \<Rightarrow> body rt page size_arg
                 | Inr _ \<Rightarrow> io_raise TypeError)"
    and body: "\<And>page size_arg sent. \<exists>address query.
                 snd (body rt page size_arg sent) = sent @ [get_request address query]"
  shows "take (length sent) (snd (f rt pos kw sent)) = sent
         \<and> list_all (\<lambda>q. timeout q = PInt 30) (new_requests (f rt pos kw) sent)"
proof (cases "bind_args page_parameters pos kw")
  case (Inl e)
  then show ?thesis by (simp add: f)
next
  case (Inr vs)
  then have "length vs = 2" by (simp add: bind_args_length page_parameters_def)
  then obtain v w where vs: "vs = [v, w]"
    by (cases vs; cases "tl vs") auto
  from body obtain address query
    where "snd (body rt v w sent) = sent @ [get_request address query]" by blast
  then show ?thesis
    using Inr vs default_timeout_one_request [of "body rt v w" sent address query]
    by (simp add: f)
qed

lemma default_timeout_statistics:
  "take (length sent) (snd (get_quality_statistics rt pos kw sent)) = sent
   \<and> list_all (\<lambda>q. timeout q = PInt 30) (new_requests (get_quality_statistics rt pos kw) sent)"
proof (cases "pos = [] \<and> kw = []")
  case True
  have "snd (get_quality_statistics rt [] [] sent) = snd (get_all_results rt [] [] sent)"
    by (simp add: get_quality_statistics_no_arguments get_quality_statistics_body_outcome
        split: prod.splits sum.splits)
  then have "snd (get_quality_statistics rt [] [] sent) =
               sent @ [get_request (DEFAULT_BASE_URL @ ''/quality/results'')
                         (page_size_params PNone PNone)]"
    by (simp add: get_all_results_no_arguments paginated_body_sent)
  then show ?thesis
    using True default_timeout_one_request by blast
next
  case False
  then show ?thesis
    by (simp add: get_quality_statistics_with_arguments)
qed

lemma public_api_default_timeout:
  "list_all (\<lambda>f. take (length sent) (snd (f rt pos kw sent)) = sent
                 \<and> list_all (\<lambda>q. timeout q = PInt 30) (new_requests (f rt pos kw) sent))
     public_api"
proof -
  note one = default_timeout_one_parameter
  note two = default_timeout_two_parameters
  have "take (length sent) (snd (get_result_by_id rt pos kw sent)) = sent
        \<and> list_all (\<lambda>q. timeout q = PInt 30) (new_requests (get_result_by_id rt pos kw) sent)"
    by (rule one [where body = get_result_by_id_body])
       (auto simp add: get_result_by_id_def single_parameter_bodies_sent)
  moreover have "take (length sent) (snd (get_all_results rt pos kw sent)) = sent
        \<and> list_all (\<lambda>q. timeout q = PInt 30) (new_requests (get_all_results rt pos kw) sent)"
    by (rule two [where body = get_all_results_body])
       (auto simp add: get_all_results_def paginated_body_sent)
  moreover have "take (length sent) (snd (get_passed_results rt pos kw sent)) = sent
        \<and> list_all (\<lambda>q. timeout q = PInt 30) (new_requests (get_passed_results rt pos kw) sent)"
    by (rule two [where body = get_passed_results_body])
       (auto simp add: get_passed_results_def paginated_body_sent)
  moreover have "take (length sent) (snd (get_result_by_lot_id rt pos kw sent)) = sent
        \<and> list_all (\<lambda>q. timeout q = PInt 30) (new_requests (get_result_by_lot_id rt pos kw) sent)"
    by (rule one [where body = get_result_by_lot_id_body])
       (auto simp add: get_result_by_lot_id_def single_parameter_bodies_sent)
  moreover have "take (length sent) (snd (get_high_risk_results rt pos kw sent)) = sent
        \<and> list_all (\<lambda>q. timeout q = PInt 30) (new_requests (get_high_risk_results rt pos kw) sent)"
    by (rule one [where body = get_high_risk_results_body])
       (auto simp add: get_high_risk_results_def get_high_risk_results_body_outcome)
  moreover have "take (length sent) (snd (get_failed_results rt pos kw sent)) = sent
        \<and> list_all (\<lambda>q. timeout q = PInt 30) (new_requests (get_failed_results rt pos kw) sent)"
    by (rule two [where body = get_failed_results_body])
       (auto simp add: get_failed_results_def paginated_body_sent)
  moreover have "take (length sent) (snd (get_results_by_defect_type rt pos kw sent)) = sent
        \<and> list_all (\<lambda>q. timeout q = PInt 30)
             (new_requests (get_results_by_defect_type rt pos kw) sent)"
    by (rule one [where body = get_results_by_defect_type_body])
       (auto simp add: get_results_by_defect_type_def single_parameter_bodies_sent)
  moreover have "take (length sent) (snd (get_quality_summary rt pos kw sent)) = sent
        \<and> list_all (\<lambda>q. timeout q = PInt 30) (new_requests (get_quality_summary rt pos kw) sent)"
    by (simp add: get_quality_summary_raises new_requests_def)
  moreover have "take (length sent) (snd (safe_get_result rt pos kw sent)) = sent
        \<and> list_all (\<lambda>q. timeout q = PInt 30) (new_requests (safe_get_result rt pos kw) sent)"
    by (simp add: safe_get_result_raises new_requests_def)
  ultimately show ?thesis
    using default_timeout_statistics [of sent rt pos kw]
    by (simp add: public_api_def)
qed

lemma public_api_rejects_timeout:
  assumes "''timeout'' \<in> fst ` set kw"
  shows "list_all (\<lambda>f. f rt pos kw sent = (Inl TypeError, sent)) public_api"
proof -
  have bind: "\<And>ps. ''timeout'' \<notin> fst ` set ps \<Longrightarrow> bind_args ps pos kw = Inl TypeError"
    using assms by (rule bind_args_unexpected_keyword)
  have "kw \<noteq> []" using assms by auto
  then show ?thesis
    by (simp add: public_api_def get_result_by_id_def get_all_results_def
        get_passed_results_def get_result_by_lot_id_def get_high_risk_results_def
        get_failed_results_def get_results_by_defect_type_def page_parameters_def bind
        get_quality_summary_raises safe_get_result_raises
        get_quality_statistics_with_arguments)
qed

text \<open>
  C10 as stated fails for the timeout: a public call that passes a \<^verbatim>\<open>timeout\<close> argument
  raises \<open>TypeError\<close> without sending a request.
\<close>

theorem public_call_rejects_timeout_override:
  "get_result_by_id scenario_runtime [PInt 1] [(''timeout'', PInt 5)] [] = (Inl TypeError, [])
   \<and> get_all_results scenario_runtime [] [(''timeout'', PInt 5)] [] = (Inl TypeError, [])
   \<and> get_all_results scenario_runtime [PNone, PNone, PInt 5] [] [] = (Inl TypeError, [])"
  by (simp add: get_result_by_id_def get_all_results_def page_parameters_def
      bind_args_unexpected_keyword [of "''timeout''"] bind_args_too_many)

text \<open>
  C10, amended. The request dispatcher \<^verbatim>\<open>_make_request\<close> accepts a base URL and a timeout
  per call and sends the request to that base URL with that timeout; without them it uses
  \<^verbatim>\<open>DEFAULT_BASE_URL\<close> and 30 seconds. No exported function accepts a timeout: a call
  that passes the keyword \<^verbatim>\<open>timeout\<close> raises \<open>TypeError\<close> and sends nothing, and every
  request an exported function sends, whatever its arguments, has the timeout 30.
\<close>

theorem timeout_override_only_in_dispatcher:
  "snd (make_request rt [m, e] [(''base_url'', b), (''timeout'', t)] sent) =
     sent @ [\<lparr> http_method = m, url = py_format rt b @ py_format rt e, json = PNone,
               params = PNone,
               headers = [(''Content-Type'', ''application/json''),
                          (''Accept'', ''application/json'')],
               timeout = t \<rparr>]
   \<and> snd (make_request rt [m, e] [] sent) =
     sent @ [\<lparr> http_method = m, url = DEFAULT_BASE_URL @ py_format rt e, json = PNone,
               params = PNone,
               headers = [(''Content-Type'', ''application/json''),
                          (''Accept'', ''application/json'')],
               timeout = PInt 30 \<rparr>]
   \<and> (''timeout'' \<in> fst ` set kw \<longrightarrow>
        list_all (\<lambda>f. f rt pos kw sent = (Inl TypeError, sent)) public_api)
   \<and> list_all (\<lambda>f. take (length sent) (snd (f rt pos kw sent)) = sent
                   \<and> list_all (\<lambda>q. timeout q = PInt 30) (new_requests (f rt pos kw) sent))
        public_api"
  using public_api_rejects_timeout [of kw rt pos sent]
    public_api_default_timeout [of sent rt pos kw]
  by (simp add: make_request_overrides make_request_body_sent)

theorem timeout_override_only_in_dispatcher_witness:
  "snd (make_request offline_runtime [PStr ''GET'', PStr ''/quality/results'']
          [(''base_url'', PStr ''http://example.org/api''), (''timeout'', PInt 5)] []) =
     [\<lparr> http_method = PStr ''GET'', url = ''http://example.org/api/quality/results'',
        json = PNone, params = PNone,
        headers = [(''Content-Type'', ''application/json''),
                   (''Accept'', ''application/json'')],
        timeout = PInt 5 \<rparr>]
   \<and> get_results_by_defect_type offline_runtime [PStr ''contamination'']
         [(''timeout'', PInt 5)] [] = (Inl TypeError, [])
   \<and> list_all (\<lambda>q. timeout q = PInt 30)
        (new_requests (get_result_by_lot_id offline_runtime [PInt 1] []) [])"
  using timeout_override_only_in_dispatcher
    [of offline_runtime "PStr ''GET''" "PStr ''/quality/results''"
        "PStr ''http://example.org/api''" "PInt 5" "[]" "[(''timeout'', PInt 5)]"
        "[PStr ''contamination'']"]
    timeout_override_only_in_dispatcher
    [of offline_runtime "PStr ''GET''" "PStr ''/quality/results''"
        "PStr ''http://example.org/api''" "PInt 5" "[]" "[]" "[PInt 1]"]
  by (simp add: public_api_def)

end
